theory Spec2Isabelle
  imports Main "HOL-Library.Word"
begin

section \<open>Errors and machine integers\<close>

text \<open>
  Go error values. \<open>errors.New msg\<close> carries a message; \<open>fmt.Errorf format args\<close>
  carries its format string and the error values among its arguments (the package only
  ever passes error values, wrapped with the verb \<open>%w\<close>).
\<close>

datatype goerror = errors_New string | fmt_Errorf string "goerror list"

text \<open>
  \<open>time.Duration\<close> is an \<open>int64\<close> count of nanoseconds and \<open>int\<close> is 64 bits wide
  on the platforms the package targets; the comparisons \<open>x <= 0\<close> of the source are signed.
\<close>

type_synonym duration = "64 word"
type_synonym goint = "64 word"

definition time_Second :: duration where
  "time_Second = 1000000000"

definition time_Minute :: duration where
  "time_Minute = 60 * time_Second"

definition defaultPort :: goint where
  "defaultPort = 8080"

definition defaultIdleTimeout :: duration where
  "defaultIdleTimeout = 1 * time_Minute"

definition defaultReadTimeout :: duration where
  "defaultReadTimeout = 5 * time_Second"

definition defaultWriteTimeout :: duration where
  "defaultWriteTimeout = 10 * time_Second"

definition defaultShutdownTimeout :: duration where
  "defaultShutdownTimeout = 10 * time_Second"

section \<open>ServeConfig\<close>

text \<open>
  The part of \<open>tls.Config\<close> that \<open>WithTLS\<close> fills in. Certificates and certificate
  pools are values of the standard library; they are kept as the bytes they were loaded from.
\<close>

datatype client_auth = NoClientCert | RequireAndVerifyClientCert

record tls_Config =
  ClientAuth :: client_auth
  Certificates :: "string list"
  ClientCAs :: string
  MinVersion :: nat
  NextProtos :: "string list"

definition tls_VersionTLS12 :: nat where
  "tls_VersionTLS12 = 771"

text \<open>
  The struct \<open>ServeConfig\<close>. Pointer fields (\<open>ErrorLog\<close>, \<open>TLS\<close>) and the interface
  field \<open>tlsErr\<close> are options, \<open>None\<close> being Go's \<open>nil\<close>. A logger is identified
  by a name.
\<close>

record ServeConfig =
  Host :: string
  Port :: goint
  IdleTimeout :: duration
  ReadTimeout :: duration
  WriteTimeout :: duration
  ShutdownTimeout :: duration
  ErrorLog :: "string option"
  TLS :: "tls_Config option"
  tlsErr :: "goerror option"

text \<open>The zero value of the struct, as \<open>var cfg ServeConfig\<close> declares it.\<close>

definition zeroServeConfig :: ServeConfig where
  "zeroServeConfig =
     \<lparr>Host = [], Port = 0, IdleTimeout = 0, ReadTimeout = 0, WriteTimeout = 0,
      ShutdownTimeout = 0, ErrorLog = None, TLS = None, tlsErr = None\<rparr>"

definition DefaultServeConfig :: ServeConfig where
  "DefaultServeConfig =
     zeroServeConfig
       \<lparr>Port := defaultPort,
        IdleTimeout := defaultIdleTimeout,
        ReadTimeout := defaultReadTimeout,
        WriteTimeout := defaultWriteTimeout,
        ShutdownTimeout := defaultShutdownTimeout\<rparr>"

text \<open>\<open>Override\<close> mutates its receiver; the model returns the updated receiver.\<close>

definition Override :: "ServeConfig \<Rightarrow> ServeConfig \<Rightarrow> ServeConfig" where
  "Override c other =
     (let c = (if Host other \<noteq> [] then c\<lparr>Host := Host other\<rparr> else c);
          c = (if Port other \<noteq> 0 then c\<lparr>Port := Port other\<rparr> else c);
          c = (if IdleTimeout other \<noteq> 0 then c\<lparr>IdleTimeout := IdleTimeout other\<rparr> else c);
          c = (if ReadTimeout other \<noteq> 0 then c\<lparr>ReadTimeout := ReadTimeout other\<rparr> else c);
          c = (if WriteTimeout other \<noteq> 0 then c\<lparr>WriteTimeout := WriteTimeout other\<rparr> else c);
          c = (if ShutdownTimeout other \<noteq> 0
               then c\<lparr>ShutdownTimeout := ShutdownTimeout other\<rparr> else c)
      in c)"

definition setDefaultZeroValues :: "ServeConfig \<Rightarrow> ServeConfig" where
  "setDefaultZeroValues c =
     (let c = (if word_sle (Port c) 0 then c\<lparr>Port := defaultPort\<rparr> else c);
          c = (if word_sle (IdleTimeout c) 0 then c\<lparr>IdleTimeout := defaultIdleTimeout\<rparr> else c);
          c = (if word_sle (ReadTimeout c) 0 then c\<lparr>ReadTimeout := defaultReadTimeout\<rparr> else c);
          c = (if word_sle (WriteTimeout c) 0
               then c\<lparr>WriteTimeout := defaultWriteTimeout\<rparr> else c);
          c = (if word_sle (ShutdownTimeout c) 0
               then c\<lparr>ShutdownTimeout := defaultShutdownTimeout\<rparr> else c)
      in c)"

text \<open>
  \<open>Validate\<close> first mutates the receiver through \<open>setDefaultZeroValues\<close> and then
  checks it: the model returns the error (\<open>None\<close> for \<open>nil\<close>) and the mutated receiver.
\<close>

definition Validate :: "ServeConfig \<Rightarrow> goerror option \<times> ServeConfig" where
  "Validate c0 =
     (let c = setDefaultZeroValues c0 in
      if word_sle (Port c) 0 then (Some (errors_New ''port must be greater than 0''), c)
      else if word_sle (IdleTimeout c) 0
        then (Some (errors_New ''idle timeout must be greater than 0''), c)
      else if word_sle (ReadTimeout c) 0
        then (Some (errors_New ''read timeout must be greater than 0''), c)
      else if word_sle (WriteTimeout c) 0
        then (Some (errors_New ''write timeout must be greater than 0''), c)
      else if word_sle (ShutdownTimeout c) 0
        then (Some (errors_New ''shutdown timeout must be greater than 0''), c)
      else (case tlsErr c of
              Some e \<Rightarrow>
                (Some (fmt_Errorf ''tls must be configured correctly if provided: %w'' [e]), c)
            | None \<Rightarrow> (None, c)))"

section \<open>Serve options\<close>

datatype ServeOption =
    hostOption string
  | portOption goint
  | idleTimeoutOption duration
  | readTimeoutOption duration
  | writeTimeoutOption duration
  | shutdownTimeoutOption duration
  | tlsOption "tls_Config option" "goerror option"
  | configOption ServeConfig
  | configOptions "ServeOption list"

definition WithHost :: "string \<Rightarrow> ServeOption" where
  "WithHost v = hostOption v"

definition WithPort :: "goint \<Rightarrow> ServeOption" where
  "WithPort v = portOption v"

definition WithIdleTimeout :: "duration \<Rightarrow> ServeOption" where
  "WithIdleTimeout v = idleTimeoutOption v"

definition WithReadTimeout :: "duration \<Rightarrow> ServeOption" where
  "WithReadTimeout v = readTimeoutOption v"

definition WithWriteTimeout :: "duration \<Rightarrow> ServeOption" where
  "WithWriteTimeout v = writeTimeoutOption v"

definition WithShutdownTimeout :: "duration \<Rightarrow> ServeOption" where
  "WithShutdownTimeout v = shutdownTimeoutOption v"

definition WithConfig :: "ServeConfig \<Rightarrow> ServeOption" where
  "WithConfig v = configOption v"

definition WithOptions :: "ServeOption list \<Rightarrow> ServeOption" where
  "WithOptions v = configOptions v"

text \<open>
  \<open>WithTLS\<close> calls three functions of the standard library that read the file system
  and parse PEM data. They are parameters of the model: \<open>LoadX509KeyPair\<close> and
  \<open>ReadFile\<close> return an error or the loaded value, \<open>AppendCertsFromPEM\<close> returns the
  filled pool or \<open>None\<close> where the source's \<open>ok\<close> is false.
\<close>

record tls_env =
  LoadX509KeyPair :: "string \<Rightarrow> string \<Rightarrow> goerror + string"
  ReadFile :: "string \<Rightarrow> goerror + string"
  AppendCertsFromPEM :: "string \<Rightarrow> string option"

definition WithTLS :: "tls_env \<Rightarrow> string \<Rightarrow> string \<Rightarrow> string \<Rightarrow> ServeOption" where
  "WithTLS env caFile ceFile keyFile =
     (case LoadX509KeyPair env ceFile keyFile of
        Inl err \<Rightarrow> tlsOption None (Some err)
      | Inr ce \<Rightarrow>
          (case ReadFile env caFile of
             Inl err \<Rightarrow> tlsOption None (Some err)
           | Inr ca \<Rightarrow>
               (case AppendCertsFromPEM env ca of
                  None \<Rightarrow> tlsOption None (Some (errors_New ''unable to append certs from PEM''))
                | Some pool \<Rightarrow>
                    tlsOption
                      (Some \<lparr>ClientAuth = RequireAndVerifyClientCert,
                             Certificates = [ce],
                             ClientCAs = pool,
                             MinVersion = tls_VersionTLS12,
                             NextProtos = [''h2'', ''http/1.1'']\<rparr>)
                      None)))"

text \<open>The method \<open>apply\<close> of each option, on the configuration it is given by pointer.\<close>

fun apply_option :: "ServeOption \<Rightarrow> ServeConfig \<Rightarrow> ServeConfig" where
  "apply_option (hostOption v) cfg = cfg\<lparr>Host := v\<rparr>"
| "apply_option (portOption v) cfg = cfg\<lparr>Port := v\<rparr>"
| "apply_option (idleTimeoutOption v) cfg = cfg\<lparr>IdleTimeout := v\<rparr>"
| "apply_option (readTimeoutOption v) cfg = cfg\<lparr>ReadTimeout := v\<rparr>"
| "apply_option (writeTimeoutOption v) cfg = cfg\<lparr>WriteTimeout := v\<rparr>"
| "apply_option (shutdownTimeoutOption v) cfg = cfg\<lparr>ShutdownTimeout := v\<rparr>"
| "apply_option (tlsOption v err) cfg = cfg\<lparr>TLS := v, tlsErr := err\<rparr>"
| "apply_option (configOption v) cfg = Override cfg v"
| "apply_option (configOptions opts) cfg = foldl (\<lambda>c opt. apply_option opt c) cfg opts"

text \<open>
  The sequential prefix of \<open>Serve\<close>: the zero configuration, every option applied in
  order, then \<open>Validate\<close>. \<open>Inl\<close> is the early \<open>return err\<close>; \<open>Inr\<close> is the
  configuration the server is built from.
\<close>

definition Serve_config :: "ServeOption list \<Rightarrow> goerror + ServeConfig" where
  "Serve_config opts =
     (let cfg = foldl (\<lambda>c opt. apply_option opt c) zeroServeConfig opts in
      case Validate cfg of
        (Some err, _) \<Rightarrow> Inl err
      | (None, cfg') \<Rightarrow> Inr cfg')"

section \<open>Strings\<close>

text \<open>
  The functions of package \<open>strings\<close> the router uses. Go strings are byte sequences;
  every cutset and suffix the package passes is the single ASCII byte \<open>/\<close>.
\<close>

definition strings_TrimLeft :: "string \<Rightarrow> string \<Rightarrow> string" where
  "strings_TrimLeft s cutset = dropWhile (\<lambda>c. c \<in> set cutset) s"

definition strings_TrimRight :: "string \<Rightarrow> string \<Rightarrow> string" where
  "strings_TrimRight s cutset = rev (dropWhile (\<lambda>c. c \<in> set cutset) (rev s))"

definition strings_Trim :: "string \<Rightarrow> string \<Rightarrow> string" where
  "strings_Trim s cutset = strings_TrimRight (strings_TrimLeft s cutset) cutset"

definition strings_HasSuffix :: "string \<Rightarrow> string \<Rightarrow> bool" where
  "strings_HasSuffix s suffix =
     (length suffix \<le> length s \<and> drop (length s - length suffix) s = suffix)"

section \<open>Requests, response writers and handlers\<close>

text \<open>
  A response writer is the state a handler mutates: the header map and the sequence of
  writes made so far. \<open>http.Redirect\<close> belongs to the standard library; a call of it is
  recorded with its target and status code.
\<close>

datatype wr_event = WriteHeader int | Write string | http_Redirect string int

record ResponseWriter =
  Header :: "string \<Rightarrow> string list option"
  written :: "wr_event list"

record Request =
  Method :: string
  URL_Path :: string
  URL_RawQuery :: string

text \<open>
  An \<open>http.Handler\<close> takes the writer and the request and leaves the writer in a new
  state; \<open>None\<close> stands for a call that does not return.
\<close>

type_synonym http_Handler = "ResponseWriter \<Rightarrow> Request \<Rightarrow> ResponseWriter option"

type_synonym Middleware = "http_Handler \<Rightarrow> http_Handler"

text \<open>
  The chainable \<open>Handler\<close>: a function that returns the next handler, or \<open>nil\<close>
  (\<open>None\<close>) when the chain is done.
\<close>

datatype Handler =
  Handler (run: "ResponseWriter \<Rightarrow> Request \<Rightarrow> ResponseWriter \<times> Handler option")

text \<open>
  \<open>ServeHTTP\<close> runs the chain until a handler returns \<open>nil\<close>. A chain may go on
  forever (a handler may return itself), so the function is partial: \<open>None\<close> is a run that
  never returns.
\<close>

partial_function (option) Handler_ServeHTTP ::
  "Handler \<Rightarrow> ResponseWriter \<Rightarrow> Request \<Rightarrow> ResponseWriter option" where
  "Handler_ServeHTTP h w r =
     (case run h w r of
        (w', None) \<Rightarrow> Some w'
      | (w', Some next) \<Rightarrow> Handler_ServeHTTP next w' r)"

definition http_StatusPermanentRedirect :: int where
  "http_StatusPermanentRedirect = 308"

text \<open>
  \<open>TrailingSlashRedirector\<close>. The function literal of the source ends after the
  \<open>if\<close> statement: on the other branch it returns with the writer as it was.
\<close>

definition TrailingSlashRedirector :: "http_Handler \<Rightarrow> http_Handler" where
  "TrailingSlashRedirector next =
     (\<lambda>w r.
        if URL_Path r \<noteq> ''/'' \<and> strings_HasSuffix (URL_Path r) ''/'' then
          (let path = strings_TrimRight (URL_Path r) ''/'';
               path = (if URL_RawQuery r \<noteq> [] then path @ ''?'' @ URL_RawQuery r else path);
               w = w\<lparr>Header := (Header w)(''Content-Type'' \<mapsto> [])\<rparr>
           in Some (w\<lparr>written := written w @ [http_Redirect path http_StatusPermanentRedirect]\<rparr>))
        else Some w)"

section \<open>Responder\<close>

record Responder =
  Responder_err :: "goerror \<Rightarrow> Handler"

definition NewResponder :: "(goerror \<Rightarrow> Handler) \<Rightarrow> Responder" where
  "NewResponder err = \<lparr>Responder_err = err\<rparr>"

text \<open>
  The logging function \<open>fn\<close> receives the writer, the request, the logger and the error;
  its effect is the writer it leaves.
\<close>

definition NewErrorLoggingResponder ::
  "string \<Rightarrow> (ResponseWriter \<Rightarrow> Request \<Rightarrow> string \<Rightarrow> goerror \<Rightarrow> ResponseWriter) \<Rightarrow> Responder" where
  "NewErrorLoggingResponder l fn =
     \<lparr>Responder_err = (\<lambda>err. Handler (\<lambda>w r. (fn w r l err, None)))\<rparr>"

text \<open>
  \<open>Error\<close> calls the injected callback. To count these calls, \<open>Error\<close> and \<open>JSON\<close>
  thread a log of the errors the callback has been called with, one entry for each call.
\<close>

definition Responder_Error ::
  "Responder \<Rightarrow> string \<Rightarrow> goerror list \<Rightarrow> goerror list \<Rightarrow> Handler \<times> goerror list" where
  "Responder_Error rs format args calls =
     (let e = fmt_Errorf format args in (Responder_err rs e, calls @ [e]))"

definition Responder_Redirect :: "Responder \<Rightarrow> int \<Rightarrow> string \<Rightarrow> Handler" where
  "Responder_Redirect rs code url =
     Handler (\<lambda>w r. (w\<lparr>written := written w @ [http_Redirect url code]\<rparr>, None))"

definition Responder_Text :: "Responder \<Rightarrow> int \<Rightarrow> string \<Rightarrow> Handler" where
  "Responder_Text rs code message =
     Handler (\<lambda>w r.
       (let w = w\<lparr>Header := (Header w)(''Content-Type'' \<mapsto> [''text/plain; charset=utf-8''])\<rparr>;
            w = w\<lparr>written := written w @ [WriteHeader code]\<rparr>;
            w = w\<lparr>written := written w @ [Write message]\<rparr>
        in (w, None)))"

text \<open>
  \<open>json.Marshal\<close> is a parameter: it returns an error or the encoded bytes.
\<close>

definition Responder_JSON ::
  "('v \<Rightarrow> goerror + string) \<Rightarrow> Responder \<Rightarrow> int \<Rightarrow> 'v \<Rightarrow> goerror list \<Rightarrow> Handler \<times> goerror list" where
  "Responder_JSON json_Marshal rs code from calls =
     (case json_Marshal from of
        Inl err \<Rightarrow> Responder_Error rs ''encoding JSON: %w'' [err] calls
      | Inr data \<Rightarrow>
          (Handler (\<lambda>w r.
             (let w = w\<lparr>Header := (Header w)(''Content-Type'' \<mapsto> [''application/json''])\<rparr>;
                  w = w\<lparr>written := written w @ [WriteHeader code]\<rparr>;
                  w = w\<lparr>written := written w @ [Write data]\<rparr>
              in (w, None))),
           calls))"

section \<open>Slices and the store\<close>

text \<open>
  A Go slice is a view of a backing array: the array's address, a length and a capacity.
  Two slices with the same address share their elements, so the backing arrays live in a
  store and the operations on slices say which array they write. The package never
  re-slices, so a view always starts at the first element of its array. The \<open>nil\<close>
  slice has no array. An element is \<open>None\<close> where the array holds the zero value of the
  function type (a \<open>nil\<close> function).
\<close>

record slice =
  slice_ptr :: "nat option"
  slice_len :: nat
  slice_cap :: nat

definition nil_slice :: slice where
  "nil_slice = \<lparr>slice_ptr = None, slice_len = 0, slice_cap = 0\<rparr>"

text \<open>The elements a slice shows: the first \<open>len\<close> elements of its array.\<close>

definition slice_elems :: "'a list list \<Rightarrow> slice \<Rightarrow> 'a list" where
  "slice_elems arrs s =
     (case slice_ptr s of
        None \<Rightarrow> []
      | Some a \<Rightarrow> take (slice_len s) (arrs ! a))"

text \<open>\<open>make([]T, n, c)\<close>: a new array of \<open>c\<close> zero values, at a fresh address.\<close>

definition go_make :: "nat \<Rightarrow> nat \<Rightarrow> 'a option list list \<Rightarrow> slice \<times> 'a option list list" where
  "go_make n c arrs =
     (\<lparr>slice_ptr = Some (length arrs), slice_len = n, slice_cap = c\<rparr>,
      arrs @ [replicate c None])"

text \<open>\<open>copy(dst, src)\<close>: the first \<open>min (len dst) (len src)\<close> elements, written into
  the array of \<open>dst\<close>.\<close>

definition go_copy :: "slice \<Rightarrow> slice \<Rightarrow> 'a list list \<Rightarrow> 'a list list" where
  "go_copy dst src arrs =
     (let n = min (slice_len dst) (slice_len src) in
      case slice_ptr dst of
        None \<Rightarrow> arrs
      | Some a \<Rightarrow> arrs[a := take n (slice_elems arrs src) @ drop n (arrs ! a)])"

text \<open>
  \<open>append(s, xs...)\<close>. Where the capacity suffices the new elements are written into
  the array of \<open>s\<close>, in place; otherwise a larger array is allocated at a fresh address and
  the elements of \<open>s\<close> are copied into it. The capacity of the new array is the runtime's
  choice \<open>grow\<close>, never less than what is needed.
\<close>

definition go_append ::
  "(nat \<Rightarrow> nat \<Rightarrow> nat) \<Rightarrow> slice \<Rightarrow> 'a option list \<Rightarrow> 'a option list list
     \<Rightarrow> slice \<times> 'a option list list" where
  "go_append grow s xs arrs =
     (let n = slice_len s + length xs in
      if n \<le> slice_cap s then
        (case slice_ptr s of
           None \<Rightarrow> (s, arrs)
         | Some a \<Rightarrow>
             (s\<lparr>slice_len := n\<rparr>,
              arrs[a := take (slice_len s) (arrs ! a) @ xs @ drop n (arrs ! a)]))
      else
        (let c = max n (grow (slice_cap s) n) in
         (\<lparr>slice_ptr = Some (length arrs), slice_len = n, slice_cap = c\<rparr>,
          arrs @ [slice_elems arrs s @ xs @ replicate (c - n) None])))"

section \<open>Router\<close>

text \<open>
  The struct \<open>Router\<close>; its fields \<open>m\<close>, \<open>r\<close>, \<open>prefix\<close> and \<open>mws\<close> carry the
  struct's name. \<open>Router_m\<close> is the address of the shared \<open>http.ServeMux\<close>.
\<close>

record Router =
  Router_m :: nat
  Router_r :: Responder
  Router_prefix :: string
  Router_mws :: slice

text \<open>
  The store: the backing arrays of middleware slices, the dispatch tables and the routers,
  each addressed by its index. A \<open>*Router\<close> is the index of an allocated router. A
  dispatch table is the sequence of its registrations, in order; matching a request against
  it is the standard library's. \<open>growslice\<close> is the runtime's choice of a new capacity.
  \<open>ServeMux_refuses\<close> is the standard library's decision to refuse a registration:
  \<open>http.ServeMux.Handle\<close> panics on a pattern it cannot parse and on a pattern that
  conflicts with one already registered; the parameter is given the patterns the table
  holds and the new pattern.
\<close>

record store =
  arrays :: "Middleware option list list"
  muxes :: "(string \<times> http_Handler) list list"
  routers :: "Router list"
  growslice :: "nat \<Rightarrow> nat \<Rightarrow> nat"
  ServeMux_refuses :: "string list \<Rightarrow> string \<Rightarrow> bool"

definition empty_store :: "(nat \<Rightarrow> nat \<Rightarrow> nat) \<Rightarrow> (string list \<Rightarrow> string \<Rightarrow> bool) \<Rightarrow> store" where
  "empty_store grow refuses =
     \<lparr>arrays = [], muxes = [], routers = [], growslice = grow, ServeMux_refuses = refuses\<rparr>"

definition NewRouter ::
  "string \<Rightarrow> (ResponseWriter \<Rightarrow> Request \<Rightarrow> string \<Rightarrow> goerror \<Rightarrow> ResponseWriter) \<Rightarrow> store
     \<Rightarrow> nat \<times> store" where
  "NewRouter l fn st =
     (length (routers st),
      st\<lparr>muxes := muxes st @ [[]],
         routers := routers st @
           [\<lparr>Router_m = length (muxes st),
             Router_r = NewErrorLoggingResponder l fn,
             Router_prefix = [],
             Router_mws = nil_slice\<rparr>]\<rparr>)"

text \<open>The middleware list a router holds: what its slice shows in the store.\<close>

definition Router_middlewares :: "store \<Rightarrow> nat \<Rightarrow> Middleware option list" where
  "Router_middlewares st ro = slice_elems (arrays st) (Router_mws (routers st ! ro))"

definition Group :: "nat \<Rightarrow> string \<Rightarrow> Middleware list \<Rightarrow> store \<Rightarrow> nat \<times> store" where
  "Group ro prefix mws st =
     (let p = routers st ! ro;
          (s, arrs) = go_make (slice_len (Router_mws p)) (slice_len (Router_mws p) + length mws)
                        (arrays st);
          arrs = go_copy s (Router_mws p) arrs;
          (s, arrs) = go_append (growslice st) s (map Some mws) arrs;
          r = \<lparr>Router_m = Router_m p,
               Router_r = Router_r p,
               Router_prefix = Router_prefix p @ ''/'' @ strings_Trim prefix ''/'',
               Router_mws = s\<rparr>
      in (length (routers st), st\<lparr>arrays := arrs, routers := routers st @ [r]\<rparr>))"

definition Use :: "nat \<Rightarrow> Middleware list \<Rightarrow> store \<Rightarrow> store" where
  "Use ro mws st =
     (let p = routers st ! ro;
          (s, arrs) = go_append (growslice st) (Router_mws p) (map Some mws) (arrays st)
      in st\<lparr>arrays := arrs, routers := (routers st)[ro := p\<lparr>Router_mws := s\<rparr>]\<rparr>)"

text \<open>
  The loop of \<open>wrap\<close> over the sequence it is given (\<open>wrap\<close> gives it the list backwards).
  Calling a \<open>nil\<close> middleware panics: \<open>None\<close>.
\<close>

fun wrap_loop :: "Middleware option list \<Rightarrow> http_Handler \<Rightarrow> http_Handler option" where
  "wrap_loop [] h = Some h"
| "wrap_loop (None # mws) h = None"
| "wrap_loop (Some mw # mws) h = wrap_loop mws (mw h)"

definition wrap :: "store \<Rightarrow> nat \<Rightarrow> http_Handler \<Rightarrow> http_Handler option" where
  "wrap st ro h =
     (let mws = Router_middlewares st ro in
      if length mws > 0 then wrap_loop (rev mws) h else Some h)"

text \<open>
  \<open>handle\<close>: the key, the wrapped handler, and the registration in the router's dispatch
  table. \<open>None\<close> is a panic: that of \<open>wrap\<close>, whose call is evaluated first, or that of
  \<open>ServeMux.Handle\<close> where the table refuses the key; then nothing is registered.
\<close>

definition handle_key :: "string \<Rightarrow> string \<Rightarrow> string \<Rightarrow> string" where
  "handle_key method prefix pattern =
     method @ '' '' @ strings_TrimRight (prefix @ ''/'' @ strings_Trim pattern ''/'') ''/''"

definition handle ::
  "nat \<Rightarrow> string \<Rightarrow> string \<Rightarrow> (Responder \<Rightarrow> Handler) \<Rightarrow> store \<Rightarrow> store option" where
  "handle ro method pattern handler st =
     (let p = routers st ! ro in
      case wrap st ro (Handler_ServeHTTP (handler (Router_r p))) of
        None \<Rightarrow> None
      | Some h \<Rightarrow>
          if ServeMux_refuses st (map fst (muxes st ! Router_m p))
               (handle_key method (Router_prefix p) pattern)
          then None
          else Some (st\<lparr>muxes := (muxes st)
                       [Router_m p := muxes st ! Router_m p @
                          [(handle_key method (Router_prefix p) pattern, h)]]\<rparr>))"

definition http_MethodGet :: string where
  "http_MethodGet = ''GET''"

definition Get :: "nat \<Rightarrow> string \<Rightarrow> (Responder \<Rightarrow> Handler) \<Rightarrow> store \<Rightarrow> store option" where
  "Get ro pattern handler st = handle ro http_MethodGet pattern handler st"

text \<open>
  A store is well formed at a router when the router is allocated, its dispatch table is
  allocated, and its slice is a view of an allocated array: the capacity is the array's
  length and the length is within it.
\<close>

definition slice_ok :: "'a list list \<Rightarrow> slice \<Rightarrow> bool" where
  "slice_ok arrs s =
     (case slice_ptr s of
        None \<Rightarrow> slice_len s = 0 \<and> slice_cap s = 0
      | Some a \<Rightarrow> a < length arrs \<and> slice_cap s = length (arrs ! a) \<and> slice_len s \<le> slice_cap s)"

definition router_ok :: "store \<Rightarrow> nat \<Rightarrow> bool" where
  "router_ok st ro =
     (ro < length (routers st)
      \<and> Router_m (routers st ! ro) < length (muxes st)
      \<and> slice_ok (arrays st) (Router_mws (routers st ! ro)))"

text \<open>
  A middleware with a part before and a part after the inner handler: \<open>pre\<close> sees the
  request first, \<open>post\<close> sees the response after the inner handler has returned.
\<close>

definition onion ::
  "(ResponseWriter \<Rightarrow> Request \<Rightarrow> ResponseWriter) \<Rightarrow> (ResponseWriter \<Rightarrow> Request \<Rightarrow> ResponseWriter)
     \<Rightarrow> Middleware" where
  "onion pre post next =
     (\<lambda>w r. case next (pre w r) r of None \<Rightarrow> None | Some w' \<Rightarrow> Some (post w' r))"

section \<open>Inputs for the properties\<close>

text \<open>
  The loading of \<open>WithTLS\<close> fails when the key pair cannot be loaded, the CA file cannot
  be read, or no certificate can be parsed from it.
\<close>

definition tls_load_fails :: "tls_env \<Rightarrow> string \<Rightarrow> string \<Rightarrow> string \<Rightarrow> bool" where
  "tls_load_fails env caFile ceFile keyFile =
     (case LoadX509KeyPair env ceFile keyFile of
        Inl _ \<Rightarrow> True
      | Inr _ \<Rightarrow>
          (case ReadFile env caFile of
             Inl _ \<Rightarrow> True
           | Inr ca \<Rightarrow> AppendCertsFromPEM env ca = None))"

text \<open>
  The error \<open>WithTLS\<close> is left with, branch by branch: the error of
  \<open>LoadX509KeyPair\<close>; else the error of \<open>ReadFile\<close>; else, where no certificate could
  be parsed, the error made on the spot.
\<close>

definition tls_load_error :: "tls_env \<Rightarrow> string \<Rightarrow> string \<Rightarrow> string \<Rightarrow> goerror" where
  "tls_load_error env caFile ceFile keyFile =
     (case LoadX509KeyPair env ceFile keyFile of
        Inl e \<Rightarrow> e
      | Inr _ \<Rightarrow>
          (case ReadFile env caFile of
             Inl e \<Rightarrow> e
           | Inr _ \<Rightarrow> errors_New ''unable to append certs from PEM''))"

text \<open>
  Three file systems: one on which no file exists, one on which only the CA file is
  missing, and one on which the CA file holds no certificate.
\<close>

definition missing_files_env :: tls_env where
  "missing_files_env =
     \<lparr>LoadX509KeyPair = (\<lambda>ce key. Inl (errors_New ''open missing.pem: no such file or directory'')),
      ReadFile = (\<lambda>f. Inl (errors_New ''open ca.pem: no such file or directory'')),
      AppendCertsFromPEM = (\<lambda>pem. None)\<rparr>"

definition missing_ca_env :: tls_env where
  "missing_ca_env =
     \<lparr>LoadX509KeyPair = (\<lambda>ce key. Inr ''pair''),
      ReadFile = (\<lambda>f. Inl (errors_New ''open ca.pem: no such file or directory'')),
      AppendCertsFromPEM = (\<lambda>pem. None)\<rparr>"

definition bad_pem_env :: tls_env where
  "bad_pem_env =
     \<lparr>LoadX509KeyPair = (\<lambda>ce key. Inr ''pair''),
      ReadFile = (\<lambda>f. Inr ''not a certificate''),
      AppendCertsFromPEM = (\<lambda>pem. None)\<rparr>"

definition sample_tls :: tls_Config where
  "sample_tls =
     \<lparr>ClientAuth = RequireAndVerifyClientCert, Certificates = [''cert''],
      ClientCAs = ''ca'', MinVersion = tls_VersionTLS12, NextProtos = [''h2'', ''http/1.1'']\<rparr>"

text \<open>
  Concrete inputs: a logging function, a growth rule for slices, a middleware that writes
  its name before and after the inner handler, a handler factory, a dispatch table that
  refuses a pattern already registered and a pattern with no slash after the method, a
  store with one new router, a writer nothing has been written to, requests, an inner
  handler that writes the status 200, and an encoder that fails.
\<close>

definition quiet_fn :: "ResponseWriter \<Rightarrow> Request \<Rightarrow> string \<Rightarrow> goerror \<Rightarrow> ResponseWriter" where
  "quiet_fn w r l err = w\<lparr>written := written w @ [WriteHeader 500]\<rparr>"

definition double_cap :: "nat \<Rightarrow> nat \<Rightarrow> nat" where
  "double_cap old n = 2 * n"

definition mark :: "string \<Rightarrow> Middleware" where
  "mark name =
     onion (\<lambda>w r. w\<lparr>written := written w @ [Write (name @ ''-pre'')]\<rparr>)
           (\<lambda>w r. w\<lparr>written := written w @ [Write (name @ ''-post'')]\<rparr>)"

definition hello :: "Responder \<Rightarrow> Handler" where
  "hello rs = Responder_Text rs 200 ''hello''"

definition sample_refuses :: "string list \<Rightarrow> string \<Rightarrow> bool" where
  "sample_refuses registered pat =
     (pat \<in> set registered
      \<or> CHR ''/'' \<notin> set (dropWhile (\<lambda>c. c = CHR '' '') (dropWhile (\<lambda>c. c \<noteq> CHR '' '') pat)))"

definition sample_store :: store where
  "sample_store = snd (NewRouter ''log'' quiet_fn (empty_store double_cap sample_refuses))"

definition empty_writer :: ResponseWriter where
  "empty_writer = \<lparr>Header = (\<lambda>k. None), written = []\<rparr>"

definition get_request :: "string \<Rightarrow> string \<Rightarrow> Request" where
  "get_request path query = \<lparr>Method = ''GET'', URL_Path = path, URL_RawQuery = query\<rparr>"

definition ok_handler :: http_Handler where
  "ok_handler w r = Some (w\<lparr>written := written w @ [WriteHeader 200]\<rparr>)"

definition failing_Marshal :: "nat \<Rightarrow> goerror + string" where
  "failing_Marshal v = Inl (errors_New ''json: unsupported value'')"

section \<open>Properties of ServeConfig and the options\<close>

lemmas default_defs = defaultPort_def defaultIdleTimeout_def defaultReadTimeout_def
  defaultWriteTimeout_def defaultShutdownTimeout_def time_Second_def time_Minute_def

lemma defaults_positive:
  "\<not> word_sle defaultPort 0" "\<not> word_sle defaultIdleTimeout 0"
  "\<not> word_sle defaultReadTimeout 0" "\<not> word_sle defaultWriteTimeout 0"
  "\<not> word_sle defaultShutdownTimeout 0"
  by (simp_all add: default_defs word_sle_eq)

lemma setDefaultZeroValues_positive:
  "\<not> word_sle (Port (setDefaultZeroValues c)) 0"
  "\<not> word_sle (IdleTimeout (setDefaultZeroValues c)) 0"
  "\<not> word_sle (ReadTimeout (setDefaultZeroValues c)) 0"
  "\<not> word_sle (WriteTimeout (setDefaultZeroValues c)) 0"
  "\<not> word_sle (ShutdownTimeout (setDefaultZeroValues c)) 0"
  by (simp_all add: setDefaultZeroValues_def Let_def defaults_positive)

lemma setDefaultZeroValues_tlsErr: "tlsErr (setDefaultZeroValues c) = tlsErr c"
  by (simp add: setDefaultZeroValues_def Let_def)

text \<open>After the backfill only the check of the deferred TLS error is left of \<open>Validate\<close>.\<close>

lemma Validate_after_backfill:
  "Validate c =
    (case tlsErr c of
       Some e \<Rightarrow> (Some (fmt_Errorf ''tls must be configured correctly if provided: %w'' [e]),
                  setDefaultZeroValues c)
     | None \<Rightarrow> (None, setDefaultZeroValues c))"
  by (simp add: Validate_def Let_def setDefaultZeroValues_positive setDefaultZeroValues_tlsErr)

text \<open>
  The six fields \<open>Override\<close> copies, and the three it never touches.
\<close>

lemma Override_fields:
  "Host (Override c other) = (if Host other \<noteq> [] then Host other else Host c)"
  "Port (Override c other) = (if Port other \<noteq> 0 then Port other else Port c)"
  "IdleTimeout (Override c other) =
     (if IdleTimeout other \<noteq> 0 then IdleTimeout other else IdleTimeout c)"
  "ReadTimeout (Override c other) =
     (if ReadTimeout other \<noteq> 0 then ReadTimeout other else ReadTimeout c)"
  "WriteTimeout (Override c other) =
     (if WriteTimeout other \<noteq> 0 then WriteTimeout other else WriteTimeout c)"
  "ShutdownTimeout (Override c other) =
     (if ShutdownTimeout other \<noteq> 0 then ShutdownTimeout other else ShutdownTimeout c)"
  "ErrorLog (Override c other) = ErrorLog c"
  "TLS (Override c other) = TLS c"
  "tlsErr (Override c other) = tlsErr c"
  by (simp_all add: Override_def Let_def)

lemma Override_zero_noop: "Override c zeroServeConfig = c"
  by (simp add: Override_def zeroServeConfig_def)

text \<open>
  C6, at a configuration whose only non-zero field is \<open>TLS\<close> (and at one whose only
  non-zero field is \<open>ErrorLog\<close>): \<open>Override\<close> leaves the receiver's field \<open>nil\<close>
  although the field is non-zero in \<open>other\<close>, and \<open>Serve\<close> given that configuration
  through \<open>WithConfig\<close> builds its server from a configuration without TLS.
\<close>

theorem Override_ignores_TLS_and_ErrorLog:
  "TLS (zeroServeConfig\<lparr>TLS := Some sample_tls\<rparr>) = Some sample_tls
   \<and> TLS (Override zeroServeConfig (zeroServeConfig\<lparr>TLS := Some sample_tls\<rparr>)) = None
   \<and> ErrorLog (Override zeroServeConfig (zeroServeConfig\<lparr>ErrorLog := Some ''stderr''\<rparr>)) = None
   \<and> Serve_config [WithConfig (zeroServeConfig\<lparr>TLS := Some sample_tls\<rparr>)] = Inr DefaultServeConfig"
  by (simp add: Override_def zeroServeConfig_def Serve_config_def WithConfig_def
      Validate_after_backfill DefaultServeConfig_def setDefaultZeroValues_def)

text \<open>
  C7: when the loading of \<open>WithTLS\<close> fails, \<open>WithTLS\<close> still returns an option. The
  option carries no TLS configuration and the error of the step that failed: the error
  \<open>LoadX509KeyPair\<close> returned, or else the error \<open>ReadFile\<close> returned, or else
  \<open>unable to append certs from PEM\<close>. Applied to any configuration it stores that very
  error in \<open>tlsErr\<close>; \<open>Validate\<close> on that configuration returns an error that wraps it,
  and so does the configuration step of \<open>Serve\<close>.
\<close>

theorem WithTLS_failure_deferred:
  assumes "tls_load_fails env caFile ceFile keyFile"
  shows "tls_load_error env caFile ceFile keyFile =
           (case LoadX509KeyPair env ceFile keyFile of
              Inl e \<Rightarrow> e
            | Inr _ \<Rightarrow>
                (case ReadFile env caFile of
                   Inl e \<Rightarrow> e
                 | Inr _ \<Rightarrow> errors_New ''unable to append certs from PEM''))
       \<and> WithTLS env caFile ceFile keyFile =
           tlsOption None (Some (tls_load_error env caFile ceFile keyFile))
       \<and> tlsErr (apply_option (WithTLS env caFile ceFile keyFile) cfg) =
           Some (tls_load_error env caFile ceFile keyFile)
       \<and> TLS (apply_option (WithTLS env caFile ceFile keyFile) cfg) = None
       \<and> fst (Validate (apply_option (WithTLS env caFile ceFile keyFile) cfg)) =
           Some (fmt_Errorf ''tls must be configured correctly if provided: %w''
                   [tls_load_error env caFile ceFile keyFile])
       \<and> Serve_config [WithTLS env caFile ceFile keyFile] =
           Inl (fmt_Errorf ''tls must be configured correctly if provided: %w''
                  [tls_load_error env caFile ceFile keyFile])"
proof -
  have o: "WithTLS env caFile ceFile keyFile =
           tlsOption None (Some (tls_load_error env caFile ceFile keyFile))"
    using assms
    by (simp add: tls_load_fails_def tls_load_error_def WithTLS_def
        split: sum.splits option.splits)
  show ?thesis
    by (simp add: o tls_load_error_def Validate_after_backfill Serve_config_def)
qed

theorem WithTLS_failure_deferred_witness:
  "tls_load_fails missing_files_env ''ca.pem'' ''missing.pem'' ''key.pem''
   \<and> tlsErr (apply_option (WithTLS missing_files_env ''ca.pem'' ''missing.pem'' ''key.pem'')
              zeroServeConfig) =
       Some (errors_New ''open missing.pem: no such file or directory'')
   \<and> fst (Validate (apply_option (WithTLS missing_files_env ''ca.pem'' ''missing.pem'' ''key.pem'')
                     zeroServeConfig)) =
       Some (fmt_Errorf ''tls must be configured correctly if provided: %w''
               [errors_New ''open missing.pem: no such file or directory''])
   \<and> tls_load_fails missing_ca_env ''ca.pem'' ''cert.pem'' ''key.pem''
   \<and> tlsErr (apply_option (WithTLS missing_ca_env ''ca.pem'' ''cert.pem'' ''key.pem'')
              zeroServeConfig) =
       Some (errors_New ''open ca.pem: no such file or directory'')
   \<and> tls_load_fails bad_pem_env ''ca.pem'' ''cert.pem'' ''key.pem''
   \<and> tlsErr (apply_option (WithTLS bad_pem_env ''ca.pem'' ''cert.pem'' ''key.pem'')
              zeroServeConfig) =
       Some (errors_New ''unable to append certs from PEM'')"
proof -
  have h1: "tls_load_fails missing_files_env ''ca.pem'' ''missing.pem'' ''key.pem''"
    by (simp add: tls_load_fails_def missing_files_env_def)
  have h2: "tls_load_fails missing_ca_env ''ca.pem'' ''cert.pem'' ''key.pem''"
    by (simp add: tls_load_fails_def missing_ca_env_def)
  have h3: "tls_load_fails bad_pem_env ''ca.pem'' ''cert.pem'' ''key.pem''"
    by (simp add: tls_load_fails_def bad_pem_env_def)
  have e1: "tls_load_error missing_files_env ''ca.pem'' ''missing.pem'' ''key.pem'' =
            errors_New ''open missing.pem: no such file or directory''"
    by (simp add: tls_load_error_def missing_files_env_def)
  have e2: "tls_load_error missing_ca_env ''ca.pem'' ''cert.pem'' ''key.pem'' =
            errors_New ''open ca.pem: no such file or directory''"
    by (simp add: tls_load_error_def missing_ca_env_def)
  have e3: "tls_load_error bad_pem_env ''ca.pem'' ''cert.pem'' ''key.pem'' =
            errors_New ''unable to append certs from PEM''"
    by (simp add: tls_load_error_def bad_pem_env_def)
  note t1 = WithTLS_failure_deferred [OF h1, of zeroServeConfig, unfolded e1]
  note t2 = WithTLS_failure_deferred [OF h2, of zeroServeConfig, unfolded e2]
  note t3 = WithTLS_failure_deferred [OF h3, of zeroServeConfig, unfolded e3]
  from t1 t2 t3 h1 h2 h3 show ?thesis by blast
qed

text \<open>
  C9: \<open>Validate\<close> on the zero configuration returns no error and leaves the receiver equal
  to \<open>DefaultServeConfig()\<close>: port 8080, idle timeout one minute, read timeout five
  seconds, write and shutdown timeouts ten seconds, in nanoseconds.
\<close>

theorem Validate_zero_defaults:
  "Validate zeroServeConfig = (None, DefaultServeConfig)
   \<and> Port DefaultServeConfig = 8080
   \<and> IdleTimeout DefaultServeConfig = 60 * 1000000000
   \<and> ReadTimeout DefaultServeConfig = 5 * 1000000000
   \<and> WriteTimeout DefaultServeConfig = 10 * 1000000000
   \<and> ShutdownTimeout DefaultServeConfig = 10 * 1000000000"
  by (simp add: Validate_after_backfill zeroServeConfig_def DefaultServeConfig_def
      setDefaultZeroValues_def default_defs)

text \<open>
  C10: \<open>Validate\<close> returns an error exactly when the deferred TLS error is set. After the
  backfill the port and the four timeouts of the receiver are positive, so none of the five
  range checks can reject: the error returned is the one that wraps the TLS error.
\<close>

theorem Validate_error_iff_tlsErr:
  "(fst (Validate c) \<noteq> None) = (tlsErr c \<noteq> None)
   \<and> fst (Validate c) =
       map_option (\<lambda>e. fmt_Errorf ''tls must be configured correctly if provided: %w'' [e])
         (tlsErr c)
   \<and> \<not> word_sle (Port (snd (Validate c))) 0
   \<and> \<not> word_sle (IdleTimeout (snd (Validate c))) 0
   \<and> \<not> word_sle (ReadTimeout (snd (Validate c))) 0
   \<and> \<not> word_sle (WriteTimeout (snd (Validate c))) 0
   \<and> \<not> word_sle (ShutdownTimeout (snd (Validate c))) 0"
  by (simp add: Validate_after_backfill setDefaultZeroValues_positive split: option.split)

section \<open>Properties of the router, the responder and the middlewares\<close>

lemma wrap_loop_Some: "wrap_loop (map Some ms) h = Some (foldl (\<lambda>h mw. mw h) h ms)"
  by (induction ms arbitrary: h) simp_all

lemma wrap_loop_backward:
  "wrap_loop (rev (map Some ms)) h = Some (foldr (\<lambda>mw h. mw h) ms h)"
proof -
  have "wrap_loop (rev (map Some ms)) h = wrap_loop (map Some (rev ms)) h"
    by (simp only: rev_map)
  also have "\<dots> = Some (foldl (\<lambda>h mw. mw h) h (rev ms))"
    by (rule wrap_loop_Some)
  also have "foldl (\<lambda>h mw. mw h) h (rev ms) = foldr (\<lambda>mw h. mw h) ms h"
    by (simp only: foldr_conv_foldl)
  finally show ?thesis .
qed

lemma wrap_held_list:
  assumes "Router_middlewares st ro = map Some ms"
  shows "wrap st ro h = Some (foldr (\<lambda>mw h. mw h) ms h)"
proof (cases "ms = []")
  case True
  with assms show ?thesis by (simp add: wrap_def)
next
  case False
  with assms have "wrap st ro h = wrap_loop (rev (map Some ms)) h"
    by (simp add: wrap_def)
  then show ?thesis by (simp only: wrap_loop_backward)
qed

lemma go_append_elems:
  assumes "slice_ok arrs s"
  shows "slice_elems (snd (go_append g s xs arrs)) (fst (go_append g s xs arrs)) =
           slice_elems arrs s @ xs"
  using assms
  by (auto simp add: go_append_def Let_def slice_ok_def slice_elems_def nth_append
      split: option.splits)

lemma go_append_ok:
  assumes "slice_ok arrs s"
  shows "slice_ok (snd (go_append g s xs arrs)) (fst (go_append g s xs arrs))"
  using assms
  by (auto simp add: go_append_def Let_def slice_ok_def slice_elems_def nth_append
      split: option.splits)

lemma go_append_other:
  assumes "a < length arrs" and "slice_ptr s \<noteq> Some a"
  shows "snd (go_append g s xs arrs) ! a = arrs ! a"
  using assms
  by (auto simp add: go_append_def Let_def nth_append split: option.splits)

lemma NewRouter_ok:
  assumes "NewRouter l fn st = (p, st0)"
  shows "router_ok st0 p \<and> Router_middlewares st0 p = [] \<and> p = length (routers st)
         \<and> Router_prefix (routers st0 ! p) = []
         \<and> Router_r (routers st0 ! p) = NewErrorLoggingResponder l fn
         \<and> Router_m (routers st0 ! p) = length (muxes st)
         \<and> muxes st0 = muxes st @ [[]]"
  using assms
  by (auto simp add: NewRouter_def router_ok_def Router_middlewares_def slice_ok_def
      slice_elems_def nil_slice_def)

lemma Use_middlewares:
  assumes "router_ok st ro"
  shows "Router_middlewares (Use ro ms st) ro = Router_middlewares st ro @ map Some ms"
  using assms go_append_elems [of "arrays st" "Router_mws (routers st ! ro)" "growslice st" "map Some ms"]
  by (simp add: Use_def Router_middlewares_def router_ok_def split_beta Let_def)

lemma Use_ok:
  assumes "router_ok st ro"
  shows "router_ok (Use ro ms st) ro"
  using assms go_append_ok [of "arrays st" "Router_mws (routers st ! ro)" "growslice st" "map Some ms"]
  by (simp add: Use_def router_ok_def split_beta Let_def)

lemma Use_refuses: "ServeMux_refuses (Use ro ms st) = ServeMux_refuses st"
  by (simp add: Use_def split_beta Let_def)

lemma Use_frame:
  "muxes (Use ro ms st) = muxes st"
  "ro < length (routers st) \<Longrightarrow> Router_m (routers (Use ro ms st) ! ro) = Router_m (routers st ! ro)"
  "length (routers (Use ro ms st)) = length (routers st)"
  "q \<noteq> ro \<Longrightarrow> routers (Use ro ms st) ! q = routers st ! q"
  "ro < length (routers st) \<Longrightarrow> Router_prefix (routers (Use ro ms st) ! ro) = Router_prefix (routers st ! ro)"
  "ro < length (routers st) \<Longrightarrow> Router_r (routers (Use ro ms st) ! ro) = Router_r (routers st ! ro)"
  by (simp_all add: Use_def split_beta Let_def)

text \<open>What \<open>Group\<close> builds: a new array that holds the parent's list and the new middlewares.\<close>

lemma Group_result:
  assumes "router_ok st p" and "Group p prefix ms st = (c, st1)"
  shows "c = length (routers st)"
    and "arrays st1 = arrays st @ [Router_middlewares st p @ map Some ms]"
    and "routers st1 = routers st @
           [\<lparr>Router_m = Router_m (routers st ! p),
             Router_r = Router_r (routers st ! p),
             Router_prefix = Router_prefix (routers st ! p) @ ''/'' @ strings_Trim prefix ''/'',
             Router_mws = \<lparr>slice_ptr = Some (length (arrays st)),
                           slice_len = length (Router_middlewares st p) + length ms,
                           slice_cap = length (Router_middlewares st p) + length ms\<rparr>\<rparr>]"
    and "muxes st1 = muxes st" and "growslice st1 = growslice st"
    and "ServeMux_refuses st1 = ServeMux_refuses st"
  using assms
  by (auto simp add: Group_def router_ok_def Router_middlewares_def go_make_def go_copy_def
      go_append_def slice_ok_def slice_elems_def Let_def nth_append split: option.splits)

lemma Group_child_ok:
  assumes "router_ok st p" and "Group p prefix ms st = (c, st1)"
  shows "router_ok st1 c"
    and "Router_middlewares st1 c = Router_middlewares st p @ map Some ms"
    and "Router_middlewares st1 p = Router_middlewares st p"
    and "routers st1 ! p = routers st ! p"
  using Group_result [OF assms] assms(1)
  by (auto simp add: router_ok_def slice_ok_def Router_middlewares_def slice_elems_def nth_append
      split: option.splits)

lemma Use_other_router:
  assumes "router_ok st q" and "q \<noteq> ro"
    and "slice_ptr (Router_mws (routers st ! q)) \<noteq> slice_ptr (Router_mws (routers st ! ro))"
  shows "Router_middlewares (Use ro ms st) q = Router_middlewares st q"
proof (cases "slice_ptr (Router_mws (routers st ! q))")
  case None
  with assms(2) show ?thesis
    by (simp add: Router_middlewares_def slice_elems_def Use_frame)
next
  case (Some a)
  with assms have a: "a < length (arrays st)"
    and ne: "slice_ptr (Router_mws (routers st ! ro)) \<noteq> Some a"
    by (auto simp add: router_ok_def slice_ok_def)
  have "arrays (Use ro ms st) ! a = arrays st ! a"
    using go_append_other [OF a ne, of "growslice st" "map Some ms"]
    by (simp add: Use_def split_beta Let_def)
  with Some assms(2) show ?thesis
    by (simp add: Router_middlewares_def slice_elems_def Use_frame)
qed

text \<open>
  C3: for a parent router \<open>p\<close> and its child \<open>c = p.Group(prefix, ms...)\<close>, the
  child's list is the parent's list with \<open>ms\<close> appended, in an array of its own; a later
  \<open>c.Use(extra...)\<close> appends to the child's list only and leaves the parent's router and
  list as they were. So \<open>wrap\<close> on the parent gives what it gave before, and a route
  registered on the parent afterwards enters the dispatch tables exactly as it would have
  without the child: no middleware of \<open>ms\<close> or \<open>extra\<close> wraps it.
\<close>

theorem Group_Use_leave_parent:
  assumes "router_ok st p"
    and "Group p prefix ms st = (c, st1)"
    and "st2 = Use c extra st1"
  shows "Router_middlewares st1 c = Router_middlewares st p @ map Some ms
       \<and> slice_ptr (Router_mws (routers st1 ! c)) \<noteq> slice_ptr (Router_mws (routers st ! p))
       \<and> Router_middlewares st1 p = Router_middlewares st p
       \<and> Router_middlewares st2 c = Router_middlewares st p @ map Some ms @ map Some extra
       \<and> Router_middlewares st2 p = Router_middlewares st p
       \<and> routers st2 ! p = routers st ! p
       \<and> wrap st2 p h = wrap st p h
       \<and> map_option muxes (handle p method pattern f st2) =
           map_option muxes (handle p method pattern f st)"
proof -
  note g = Group_result [OF assms(1,2)]
  note k = Group_child_ok [OF assms(1,2)]
  from assms(1) have plt: "p < length (routers st)"
    and pptr: "\<And>a. slice_ptr (Router_mws (routers st ! p)) = Some a \<Longrightarrow> a < length (arrays st)"
    by (auto simp add: router_ok_def slice_ok_def)
  from g(1) plt have pc: "p \<noteq> c" by simp
  have cptr: "slice_ptr (Router_mws (routers st1 ! c)) = Some (length (arrays st))"
    by (simp add: g(1) g(3))
  have fresh: "slice_ptr (Router_mws (routers st1 ! c)) \<noteq> slice_ptr (Router_mws (routers st ! p))"
    using pptr cptr by (cases "slice_ptr (Router_mws (routers st ! p))") auto
  have pok1: "router_ok st1 p"
    using assms(1) g(2) g(4) k(4) plt
    by (auto simp add: router_ok_def slice_ok_def g(3) nth_append split: option.splits)
  have c2: "Router_middlewares st2 c = Router_middlewares st p @ map Some ms @ map Some extra"
    by (simp add: assms(3) Use_middlewares [OF k(1)] k(2))
  have p2: "Router_middlewares st2 p = Router_middlewares st p"
    using Use_other_router [OF pok1 pc, of extra] fresh k(4) k(3) by (simp add: assms(3))
  have r2: "routers st2 ! p = routers st ! p"
    by (simp add: assms(3) Use_frame(4) [OF pc] k(4))
  have w2: "wrap st2 p h = wrap st p h" for h
    by (simp add: wrap_def p2)
  have m2: "muxes st2 = muxes st"
    by (simp add: assms(3) Use_frame(1) g(4))
  have f2: "ServeMux_refuses st2 = ServeMux_refuses st"
    by (simp add: assms(3) Use_refuses g(6))
  have h2: "map_option muxes (handle p method pattern f st2) =
            map_option muxes (handle p method pattern f st)"
    by (simp add: handle_def Let_def w2 r2 m2 f2 split: option.splits)
  from k(2) fresh k(3) c2 p2 r2 w2 h2 show ?thesis by blast
qed

lemma sample_store_ok: "router_ok sample_store 0 \<and> Router_middlewares sample_store 0 = []"
  using NewRouter_ok [of "''log''" quiet_fn "empty_store double_cap sample_refuses" 0 sample_store]
  by (simp add: sample_store_def NewRouter_def empty_store_def)

lemma ServeHTTP_terminal:
  "snd (run h w r) = None \<Longrightarrow> Handler_ServeHTTP h w r = Some (fst (run h w r))"
  by (subst Handler_ServeHTTP.simps) (simp add: split_beta)

text \<open>
  C1: when a router holds the middlewares \<open>[m1, ..., mn]\<close>, \<open>wrap h\<close> is
  \<open>m1 (m2 (... (mn h)))\<close>, the first-added middleware outermost, and \<open>handle\<close>
  registers that handler for the handler chain of the route, unless the dispatch table
  refuses the key: then \<open>handle\<close> panics and registers nothing. Two calls of \<open>Use\<close>, with
  \<open>A\<close> then with \<open>B\<close>, put \<open>A\<close> and \<open>B\<close> at the end of the list in that order, so
  the handler is wrapped as \<open>A (B h)\<close> inside the earlier middlewares. For middlewares with
  a part before and a part after the inner handler, the part before of \<open>A\<close> runs first,
  then that of \<open>B\<close>, then the handler, then the part after of \<open>B\<close>, then that of \<open>A\<close>.
\<close>

theorem wrap_first_added_outermost:
  assumes "Router_middlewares st ro = map Some ms"
  shows "wrap st ro h = Some (foldr (\<lambda>mw h. mw h) ms h)
       \<and> handle ro method pattern f st =
           (if ServeMux_refuses st (map fst (muxes st ! Router_m (routers st ! ro)))
                 (handle_key method (Router_prefix (routers st ! ro)) pattern)
            then None
            else Some (st\<lparr>muxes := (muxes st)
                   [Router_m (routers st ! ro) := muxes st ! Router_m (routers st ! ro) @
                      [(handle_key method (Router_prefix (routers st ! ro)) pattern,
                        foldr (\<lambda>mw h. mw h) ms
                          (Handler_ServeHTTP (f (Router_r (routers st ! ro)))))]]\<rparr>))
       \<and> (router_ok st ro \<longrightarrow>
            Router_middlewares (Use ro [B] (Use ro [A] st)) ro = map Some (ms @ [A, B])
            \<and> wrap (Use ro [B] (Use ro [A] st)) ro h = Some (foldr (\<lambda>mw h. mw h) ms (A (B h))))
       \<and> foldr (\<lambda>mw h. mw h) [onion preA postA, onion preB postB] h w r =
           (case h (preB (preA w r) r) r of
              None \<Rightarrow> None
            | Some w' \<Rightarrow> Some (postA (postB w' r) r))"
proof -
  have w1: "wrap st ro h = Some (foldr (\<lambda>mw h. mw h) ms h)" for h
    by (rule wrap_held_list [OF assms])
  have h1: "handle ro method pattern f st =
           (if ServeMux_refuses st (map fst (muxes st ! Router_m (routers st ! ro)))
                 (handle_key method (Router_prefix (routers st ! ro)) pattern)
            then None
            else Some (st\<lparr>muxes := (muxes st)
                   [Router_m (routers st ! ro) := muxes st ! Router_m (routers st ! ro) @
                      [(handle_key method (Router_prefix (routers st ! ro)) pattern,
                        foldr (\<lambda>mw h. mw h) ms
                          (Handler_ServeHTTP (f (Router_r (routers st ! ro)))))]]\<rparr>))"
    by (simp add: handle_def Let_def w1)
  have u1: "Router_middlewares (Use ro [B] (Use ro [A] st)) ro = map Some (ms @ [A, B])
            \<and> wrap (Use ro [B] (Use ro [A] st)) ro h = Some (foldr (\<lambda>mw h. mw h) ms (A (B h)))"
    if ok: "router_ok st ro"
  proof -
    have "Router_middlewares (Use ro [B] (Use ro [A] st)) ro = map Some (ms @ [A, B])"
      by (simp add: Use_middlewares [OF Use_ok [OF ok]] Use_middlewares [OF ok] assms)
    then show ?thesis
      using wrap_held_list [of "Use ro [B] (Use ro [A] st)" ro "ms @ [A, B]" h] by simp
  qed
  have o1: "foldr (\<lambda>mw h. mw h) [onion preA postA, onion preB postB] h w r =
           (case h (preB (preA w r) r) r of
              None \<Rightarrow> None
            | Some w' \<Rightarrow> Some (postA (postB w' r) r))"
    by (simp add: onion_def split: option.splits)
  from w1 h1 u1 o1 show ?thesis by blast
qed

theorem wrap_first_added_outermost_witness:
  "Router_middlewares sample_store 0 = map Some []
   \<and> router_ok sample_store 0
   \<and> wrap (Use 0 [mark ''B''] (Use 0 [mark ''A''] sample_store)) 0 ok_handler =
       Some (mark ''A'' (mark ''B'' ok_handler))
   \<and> mark ''A'' (mark ''B'' ok_handler) empty_writer (get_request ''/users'' []) =
       Some \<lparr>Header = (\<lambda>k. None),
             written = [Write ''A-pre'', Write ''B-pre'', WriteHeader 200,
                        Write ''B-post'', Write ''A-post'']\<rparr>"
proof -
  have ok: "router_ok sample_store 0" and e: "Router_middlewares sample_store 0 = map Some []"
    using sample_store_ok by simp_all
  have run: "mark ''A'' (mark ''B'' ok_handler) empty_writer (get_request ''/users'' []) =
       Some \<lparr>Header = (\<lambda>k. None),
             written = [Write ''A-pre'', Write ''B-pre'', WriteHeader 200,
                        Write ''B-post'', Write ''A-post'']\<rparr>"
    by (simp add: mark_def onion_def ok_handler_def empty_writer_def)
  from wrap_first_added_outermost [OF e, of ok_handler _ _ _ "mark ''B''" "mark ''A''"] ok e run
  show ?thesis by simp
qed

theorem Group_Use_leave_parent_witness:
  "router_ok sample_store 0
   \<and> Router_middlewares
        (Use (fst (Group 0 ''v1'' [mark ''B''] sample_store)) [mark ''C'']
           (snd (Group 0 ''v1'' [mark ''B''] sample_store)))
        (fst (Group 0 ''v1'' [mark ''B''] sample_store)) =
       Router_middlewares sample_store 0 @ map Some [mark ''B''] @ map Some [mark ''C'']
   \<and> Router_middlewares
        (Use (fst (Group 0 ''v1'' [mark ''B''] sample_store)) [mark ''C'']
           (snd (Group 0 ''v1'' [mark ''B''] sample_store))) 0 =
       Router_middlewares sample_store 0
   \<and> wrap (Use (fst (Group 0 ''v1'' [mark ''B''] sample_store)) [mark ''C'']
           (snd (Group 0 ''v1'' [mark ''B''] sample_store))) 0 ok_handler = Some ok_handler"
proof -
  have ok: "router_ok sample_store 0" and e: "Router_middlewares sample_store 0 = []"
    using sample_store_ok by simp_all
  have g: "Group 0 ''v1'' [mark ''B''] sample_store =
           (fst (Group 0 ''v1'' [mark ''B''] sample_store),
            snd (Group 0 ''v1'' [mark ''B''] sample_store))"
    by simp
  have w: "wrap sample_store 0 ok_handler = Some ok_handler"
    by (simp add: wrap_def e)
  from Group_Use_leave_parent [OF ok g refl, of "[mark ''C'']" ok_handler] ok w
  show ?thesis by simp
qed

text \<open>
  C8: when the encoding of the value fails, \<open>JSON\<close> is \<open>Error\<close> on the encoding error:
  it returns the handler the error callback returns and calls the callback exactly once (the
  log of calls grows by that one error); it builds no handler that sets a header or writes.
  With the error-logging responder, running the returned handler passes the writer, as it
  was given, to the logging function once and ends the chain there.
\<close>

theorem JSON_marshal_failure:
  assumes "json_Marshal v = Inl e"
  shows "Responder_JSON json_Marshal rs code v calls =
           Responder_Error rs ''encoding JSON: %w'' [e] calls
       \<and> fst (Responder_JSON json_Marshal rs code v calls) =
           Responder_err rs (fmt_Errorf ''encoding JSON: %w'' [e])
       \<and> snd (Responder_JSON json_Marshal rs code v calls) =
           calls @ [fmt_Errorf ''encoding JSON: %w'' [e]]
       \<and> Handler_ServeHTTP
           (fst (Responder_JSON json_Marshal (NewErrorLoggingResponder l fn) code v calls)) w r =
           Some (fn w r l (fmt_Errorf ''encoding JSON: %w'' [e]))"
proof -
  have j: "Responder_JSON json_Marshal rs code v calls =
           Responder_Error rs ''encoding JSON: %w'' [e] calls" for rs
    using assms by (simp add: Responder_JSON_def)
  have s: "Handler_ServeHTTP
           (fst (Responder_JSON json_Marshal (NewErrorLoggingResponder l fn) code v calls)) w r =
           Some (fn w r l (fmt_Errorf ''encoding JSON: %w'' [e]))"
    by (simp add: j Responder_Error_def NewErrorLoggingResponder_def ServeHTTP_terminal Let_def)
  show ?thesis
    using s by (simp add: j Responder_Error_def Let_def)
qed

theorem JSON_marshal_failure_witness:
  "failing_Marshal 7 = Inl (errors_New ''json: unsupported value'')
   \<and> snd (Responder_JSON failing_Marshal (NewErrorLoggingResponder ''log'' quiet_fn) 200 7 []) =
       [fmt_Errorf ''encoding JSON: %w'' [errors_New ''json: unsupported value'']]
   \<and> Handler_ServeHTTP
       (fst (Responder_JSON failing_Marshal (NewErrorLoggingResponder ''log'' quiet_fn) 200 7 []))
       empty_writer (get_request ''/users'' []) =
       Some (quiet_fn empty_writer (get_request ''/users'' []) ''log''
               (fmt_Errorf ''encoding JSON: %w'' [errors_New ''json: unsupported value'']))"
proof -
  have h: "failing_Marshal 7 = Inl (errors_New ''json: unsupported value'')"
    by (simp add: failing_Marshal_def)
  note t = JSON_marshal_failure [where json_Marshal = failing_Marshal and v = "7::nat"
      and e = "errors_New ''json: unsupported value''"
      and rs = "NewErrorLoggingResponder ''log'' quiet_fn" and code = 200 and calls = "[]"
      and l = "''log''" and fn = quiet_fn and w = empty_writer
      and r = "get_request ''/users'' []", OF h]
  from t have a: "snd (Responder_JSON failing_Marshal (NewErrorLoggingResponder ''log'' quiet_fn)
                    200 7 []) = [] @ [fmt_Errorf ''encoding JSON: %w'' [errors_New ''json: unsupported value'']]"
    by (rule conjunct1 [OF conjunct2 [OF conjunct2]])
  from t have b: "Handler_ServeHTTP
       (fst (Responder_JSON failing_Marshal (NewErrorLoggingResponder ''log'' quiet_fn) 200 7 []))
       empty_writer (get_request ''/users'' []) =
       Some (quiet_fn empty_writer (get_request ''/users'' []) ''log''
               (fmt_Errorf ''encoding JSON: %w'' [errors_New ''json: unsupported value'']))"
    by (rule conjunct2 [OF conjunct2 [OF conjunct2]])
  from h a b show ?thesis by simp
qed

lemma TrailingSlashRedirector_redirects:
  assumes "URL_Path r \<noteq> ''/''" and "strings_HasSuffix (URL_Path r) ''/''"
  shows "TrailingSlashRedirector next w r =
           Some \<lparr>Header = (Header w)(''Content-Type'' \<mapsto> []),
                 written = written w @
                   [http_Redirect
                      (strings_TrimRight (URL_Path r) ''/'' @
                         (if URL_RawQuery r \<noteq> [] then ''?'' @ URL_RawQuery r else []))
                      308]\<rparr>"
  using assms
  by (simp add: TrailingSlashRedirector_def Let_def http_StatusPermanentRedirect_def)

text \<open>
  C2, at requests for \<open>/users\<close> and for \<open>/\<close>: the handler \<open>TrailingSlashRedirector\<close>
  returns leaves the writer as it was and never calls the inner handler, whatever the inner
  handler is; with an inner handler that writes the status 200 the result differs from the
  inner handler's. The request for \<open>/users/?page=2\<close> is redirected to
  \<open>/users?page=2\<close> with status 308 and an emptied \<open>Content-Type\<close>.
\<close>

theorem TrailingSlashRedirector_drops_inner:
  "TrailingSlashRedirector next w (get_request ''/users'' []) = Some w
   \<and> TrailingSlashRedirector next w (get_request ''/'' []) = Some w
   \<and> TrailingSlashRedirector ok_handler empty_writer (get_request ''/users'' []) = Some empty_writer
   \<and> ok_handler empty_writer (get_request ''/users'' []) =
       Some \<lparr>Header = (\<lambda>k. None), written = [WriteHeader 200]\<rparr>
   \<and> TrailingSlashRedirector ok_handler empty_writer (get_request ''/users'' []) \<noteq>
       ok_handler empty_writer (get_request ''/users'' [])
   \<and> TrailingSlashRedirector next w (get_request ''/users/'' ''page=2'') =
       Some \<lparr>Header = (Header w)(''Content-Type'' \<mapsto> []),
             written = written w @ [http_Redirect ''/users?page=2'' 308]\<rparr>"
  by (simp add: TrailingSlashRedirector_def get_request_def strings_HasSuffix_def
      strings_TrimRight_def ok_handler_def empty_writer_def Let_def http_StatusPermanentRedirect_def)

text \<open>
  C4, at the pattern \<open>/\<close> on a new router (empty prefix): the key \<open>handle\<close> computes
  is the method and a space followed by an empty path, not by \<open>/\<close>. With that key
  \<open>Get\<close> either panics, where the dispatch table refuses it, or registers the route
  under the empty path; on a table that refuses a pattern with no slash it panics and
  registers nothing. The root of a group (\<open>/v1\<close> with pattern \<open>/\<close>) and a pattern
  with a trailing slash lose the slash, as intended.
\<close>

theorem root_pattern_key_has_empty_path:
  "handle_key http_MethodGet [] ''/'' = ''GET ''
   \<and> (case NewRouter l fn st of
        (p, st0) \<Rightarrow>
          Get p ''/'' f st0 =
            (if ServeMux_refuses st [] ''GET '' then None
             else Some (st0\<lparr>muxes := muxes st @
                          [[(''GET '', Handler_ServeHTTP (f (NewErrorLoggingResponder l fn)))]]\<rparr>)))
   \<and> Get 0 ''/'' hello sample_store = None
   \<and> handle_key http_MethodGet ''/v1'' ''/'' = ''GET /v1''
   \<and> handle_key http_MethodGet [] ''/users/'' = ''GET /users''"
proof -
  have k: "handle_key http_MethodGet [] ''/'' = ''GET ''"
    by (simp add: handle_key_def http_MethodGet_def strings_Trim_def strings_TrimRight_def
        strings_TrimLeft_def)
  have g: "(case NewRouter l fn st of
        (p, st0) \<Rightarrow>
          Get p ''/'' f st0 =
            (if ServeMux_refuses st [] ''GET '' then None
             else Some (st0\<lparr>muxes := muxes st @
                          [[(''GET '', Handler_ServeHTTP (f (NewErrorLoggingResponder l fn)))]]\<rparr>)))"
    by (simp add: k Get_def handle_def wrap_def Router_middlewares_def slice_elems_def
        NewRouter_def nil_slice_def Let_def)
  have c: "Get 0 ''/'' hello sample_store = None"
    by (simp add: k Get_def handle_def wrap_def Router_middlewares_def slice_elems_def
        sample_store_def NewRouter_def empty_store_def nil_slice_def sample_refuses_def Let_def)
  have v: "handle_key http_MethodGet ''/v1'' ''/'' = ''GET /v1''"
    by (simp add: handle_key_def http_MethodGet_def strings_Trim_def strings_TrimRight_def
        strings_TrimLeft_def)
  have u: "handle_key http_MethodGet [] ''/users/'' = ''GET /users''"
    by (simp add: handle_key_def http_MethodGet_def strings_Trim_def strings_TrimRight_def
        strings_TrimLeft_def)
  from k g c v u show ?thesis by blast
qed

end
